theory Spec2Isabelle
  imports Main "HOL-Library.Word" "HOL-Library.Sublist" "HOL-Library.Monad_Syntax"
begin

section \<open>The telemetry parser of the ground station (DataParser.cpp)\<close>

text \<open>
  The development follows \<^verbatim>\<open>src/DataParser.cpp\<close>: the empty packet, the constructor, the
  read accessors and \<^verbatim>\<open>DataParser::parsePacket\<close>. A packet and every \<^verbatim>\<open>QString\<close> are lists
  of 8-bit characters: the wire format is ASCII text, and for ASCII text without a NUL
  character the conversion \<^verbatim>\<open>QString copy = packet\<close> keeps every character and
  \<^verbatim>\<open>rp.toStdString()\<close> has the \<^verbatim>\<open>rp.size()\<close> characters of \<^verbatim>\<open>rp\<close>. A signal that is emitted
  is an element of the list a function returns with the new state. An index handed to
  \<^verbatim>\<open>at\<close> or \<^verbatim>\<open>insert\<close> outside the container is the one way the parser can fail: Qt
  asserts that the index is valid and leaves the behaviour open otherwise. That failure
  is the result \<open>None\<close>.
\<close>

subsection \<open>Constants.h and crc32.h\<close>

text \<open>
  Modelled from the spec: Constants.h is not among the sources. The positions are those of
  the spec's FieldIndex enumeration, in its order and counted from 0 as a C++ enumeration
  is: header, team ID, packet count, mission time, altitude, battery voltage, relative
  humidity, UV index, internal and external temperature, atmospheric pressure, GPS time,
  GPS altitude, GPS velocity, GPS latitude, GPS longitude, GPS satellite count,
  accelerometer X/Y/Z, gyroscope X/Y/Z, checksum. The checksum is the last member, at
  position 23, which is the token count the spec gives.
\<close>

definition kHeader :: nat where "kHeader = 0"
definition kTeamID :: nat where "kTeamID = 1"
definition kPacketCount :: nat where "kPacketCount = 2"
definition kMisionTime :: nat where "kMisionTime = 3"
definition kAltitude :: nat where "kAltitude = 4"
definition kBatteryVoltage :: nat where "kBatteryVoltage = 5"
definition kRelativeHumidity :: nat where "kRelativeHumidity = 6"
definition kUvRadiationIndex :: nat where "kUvRadiationIndex = 7"
definition kInternalTemp :: nat where "kInternalTemp = 8"
definition kExternalTemp :: nat where "kExternalTemp = 9"
definition kAtmPressure :: nat where "kAtmPressure = 10"
definition kGpsTime :: nat where "kGpsTime = 11"
definition kGpsAltitude :: nat where "kGpsAltitude = 12"
definition kGpsVelocity :: nat where "kGpsVelocity = 13"
definition kGpsLatitude :: nat where "kGpsLatitude = 14"
definition kGpsLongitude :: nat where "kGpsLongitude = 15"
definition kGpsSatelliteCount :: nat where "kGpsSatelliteCount = 16"
definition kAccelerometerX :: nat where "kAccelerometerX = 17"
definition kAccelerometerY :: nat where "kAccelerometerY = 18"
definition kAccelerometerZ :: nat where "kAccelerometerZ = 19"
definition kGyroscopeX :: nat where "kGyroscopeX = 20"
definition kGyroscopeY :: nat where "kGyroscopeY = 21"
definition kGyroscopeZ :: nat where "kGyroscopeZ = 22"
definition kChecksumCode :: nat where "kChecksumCode = 23"

lemmas positions =
  kHeader_def kTeamID_def kPacketCount_def kMisionTime_def kAltitude_def
  kBatteryVoltage_def kRelativeHumidity_def kUvRadiationIndex_def kInternalTemp_def
  kExternalTemp_def kAtmPressure_def kGpsTime_def kGpsAltitude_def kGpsVelocity_def
  kGpsLatitude_def kGpsLongitude_def kGpsSatelliteCount_def kAccelerometerX_def
  kAccelerometerY_def kAccelerometerZ_def kGyroscopeX_def kGyroscopeY_def
  kGyroscopeZ_def kChecksumCode_def

text \<open>
  The header literal, the separator, the secondary end-of-transmission mark and the
  checksum routine of crc32.h are not among the sources either. The spec says that the
  separator and the mark are single characters and that the routine is a function from
  bytes to 32 bits, and gives no value for any of them: they are parameters of the
  parser, and every theorem holds for all of them.
\<close>

record constants =
  HEADER_CODE :: string
  EOT_SECONDARY :: char
  DATA_SEPARATOR :: char
  CRC32 :: "string \<Rightarrow> 32 word"

subsection \<open>The Qt values the parser stores and converts\<close>

text \<open>
  A \<^verbatim>\<open>QVariant\<close> of the parser holds an \<^verbatim>\<open>int\<close>, a \<^verbatim>\<open>uint\<close>, a \<^verbatim>\<open>double\<close>, a \<^verbatim>\<open>float\<close>
  or a \<^verbatim>\<open>QString\<close>. An \<^verbatim>\<open>int\<close> is a 32-bit word in two's complement (read by \<open>sint\<close>), a
  \<^verbatim>\<open>uint\<close> a 32-bit word read by \<open>unat\<close>, so a cast between them keeps the bits. The types
  of \<^verbatim>\<open>double\<close>, \<^verbatim>\<open>float\<close> and of a valid calendar time are left open (\<open>'d\<close>, \<open>'f\<close>, \<open>'t\<close>).
\<close>

datatype ('d, 'f) QVariant =
  VInt "32 word"
  | VUInt "32 word"
  | VDouble 'd
  | VFloat 'f
  | VString string

datatype 't QDateTime = InvalidDateTime | DateTime 't

text \<open>
  The conversions of the Qt library are parameters as well: \<^verbatim>\<open>QString::toInt\<close>,
  \<^verbatim>\<open>toUInt\<close>, \<^verbatim>\<open>toDouble\<close>, \<^verbatim>\<open>toFloat\<close>, the parsing of a calendar time from a string,
  and what a \<^verbatim>\<open>QVariant\<close> conversion gives for a value of another kind than the one
  asked for. The last parameter belongs to the C++ runtime: parsePacket keeps the pointer
  \<^verbatim>\<open>rp.toStdString().c_str()\<close> of a temporary string, which is destroyed at the end of
  that statement, and hands it to CRC32 in the next one. What CRC32 finds there for a
  string with the characters of \<^verbatim>\<open>rp\<close> is left open by the language;
  \<open>destroyed_c_str\<close> stands for it, and nothing is assumed of it.
\<close>

record ('d, 'f, 't) qt =
  QString_toInt :: "string \<Rightarrow> 32 word"
  QString_toUInt :: "string \<Rightarrow> 32 word"
  QString_toDouble :: "string \<Rightarrow> 'd"
  QString_toFloat :: "string \<Rightarrow> 'f"
  QString_toDateTime :: "string \<Rightarrow> 't QDateTime"
  convert_toInt :: "('d, 'f) QVariant \<Rightarrow> 32 word"
  convert_toUInt :: "('d, 'f) QVariant \<Rightarrow> 32 word"
  convert_toDouble :: "('d, 'f) QVariant \<Rightarrow> 'd"
  convert_toFloat :: "('d, 'f) QVariant \<Rightarrow> 'f"
  destroyed_c_str :: "string \<Rightarrow> string"

text \<open>
  \<^verbatim>\<open>QVariant::toInt\<close> and its siblings: a value of the kind asked for is returned as it
  is, an \<^verbatim>\<open>int\<close> and a \<^verbatim>\<open>uint\<close> are cast to one another, and only a string can become a
  calendar time.
\<close>

fun toInt :: "('d, 'f, 't) qt \<Rightarrow> ('d, 'f) QVariant \<Rightarrow> 32 word" where
  "toInt q (VInt i) = i"
| "toInt q (VUInt u) = u"
| "toInt q v = convert_toInt q v"

fun toUInt :: "('d, 'f, 't) qt \<Rightarrow> ('d, 'f) QVariant \<Rightarrow> 32 word" where
  "toUInt q (VUInt u) = u"
| "toUInt q (VInt i) = i"
| "toUInt q v = convert_toUInt q v"

fun toDouble :: "('d, 'f, 't) qt \<Rightarrow> ('d, 'f) QVariant \<Rightarrow> 'd" where
  "toDouble q (VDouble d) = d"
| "toDouble q v = convert_toDouble q v"

fun toFloat :: "('d, 'f, 't) qt \<Rightarrow> ('d, 'f) QVariant \<Rightarrow> 'f" where
  "toFloat q (VFloat f) = f"
| "toFloat q v = convert_toFloat q v"

fun toDateTime :: "('d, 'f, 't) qt \<Rightarrow> ('d, 'f) QVariant \<Rightarrow> 't QDateTime" where
  "toDateTime q (VString s) = QString_toDateTime q s"
| "toDateTime q v = InvalidDateTime"

text \<open>\<^verbatim>\<open>at\<close> of a list or vector, and \<^verbatim>\<open>QVector::insert\<close>, which shifts the tail.\<close>

definition at :: "'a list \<Rightarrow> nat \<Rightarrow> 'a option" where
  "at xs i = (if i < length xs then Some (xs ! i) else None)"

definition insert_at :: "nat \<Rightarrow> 'a \<Rightarrow> 'a list \<Rightarrow> 'a list option" where
  "insert_at i v xs = (if i \<le> length xs then Some (take i xs @ v # drop i xs) else None)"

text \<open>\<^verbatim>\<open>QString::chop\<close>, \<^verbatim>\<open>QByteArray::endsWith\<close> for one character, \<^verbatim>\<open>QString::split\<close>.\<close>

definition chop :: "nat \<Rightarrow> string \<Rightarrow> string" where
  "chop n s = take (length s - n) s"

definition endsWith :: "string \<Rightarrow> char \<Rightarrow> bool" where
  "endsWith s c = (s \<noteq> [] \<and> last s = c)"

fun split :: "char \<Rightarrow> string \<Rightarrow> string list" where
  "split sep [] = [[]]"
| "split sep (c # cs) =
     (if c = sep then [] # split sep cs
      else (case split sep cs of [] \<Rightarrow> [[c]] | t # ts \<Rightarrow> (c # t) # ts))"

subsection \<open>The parser's state\<close>

primrec append_zero :: "nat \<Rightarrow> ('d, 'f) QVariant list \<Rightarrow> ('d, 'f) QVariant list" where
  "append_zero 0 packet = packet"
| "append_zero (Suc n) packet = append_zero n (packet @ [VInt 0])"

definition EmptyDataPacket :: "unit \<Rightarrow> ('d, 'f) QVariant list" where
  "EmptyDataPacket _ = append_zero kChecksumCode []"

record ('d, 'f) DataParser =
  m_crc32 :: "32 word"
  m_data :: "('d, 'f) QVariant list"
  m_csvLoggingEnabled :: bool

definition DataParser :: "unit \<Rightarrow> ('d, 'f) DataParser" where
  "DataParser _ = \<lparr>m_crc32 = 0, m_data = EmptyDataPacket (), m_csvLoggingEnabled = False\<rparr>"

datatype signal = packetError | satelliteReset | dataParsed | csvLoggingEnabledChanged

subsection \<open>The read accessors\<close>

definition teamId :: "('d, 'f, 't) qt \<Rightarrow> ('d, 'f) DataParser \<Rightarrow> 32 word option" where
  "teamId q s = map_option (toInt q) (at (m_data s) kTeamID)"

definition packetCount :: "('d, 'f, 't) qt \<Rightarrow> ('d, 'f) DataParser \<Rightarrow> 32 word option" where
  "packetCount q s = map_option (toInt q) (at (m_data s) kPacketCount)"

definition missionTime :: "('d, 'f, 't) qt \<Rightarrow> ('d, 'f) DataParser \<Rightarrow> 64 word option" where
  "missionTime q s = map_option (\<lambda>v. ucast (toUInt q v)) (at (m_data s) kMisionTime)"

definition altitude :: "('d, 'f, 't) qt \<Rightarrow> ('d, 'f) DataParser \<Rightarrow> 'd option" where
  "altitude q s = map_option (toDouble q) (at (m_data s) kAltitude)"

definition batteryVoltage :: "('d, 'f, 't) qt \<Rightarrow> ('d, 'f) DataParser \<Rightarrow> 'd option" where
  "batteryVoltage q s = map_option (toDouble q) (at (m_data s) kBatteryVoltage)"

definition internalTemperature :: "('d, 'f, 't) qt \<Rightarrow> ('d, 'f) DataParser \<Rightarrow> 'd option" where
  "internalTemperature q s = map_option (toDouble q) (at (m_data s) kInternalTemp)"

definition externalTemperature :: "('d, 'f, 't) qt \<Rightarrow> ('d, 'f) DataParser \<Rightarrow> 'd option" where
  "externalTemperature q s = map_option (toDouble q) (at (m_data s) kExternalTemp)"

definition atmosphericPressure :: "('d, 'f, 't) qt \<Rightarrow> ('d, 'f) DataParser \<Rightarrow> 'd option" where
  "atmosphericPressure q s = map_option (toDouble q) (at (m_data s) kAtmPressure)"

definition gpsTime :: "('d, 'f, 't) qt \<Rightarrow> ('d, 'f) DataParser \<Rightarrow> 't QDateTime option" where
  "gpsTime q s = map_option (toDateTime q) (at (m_data s) kGpsTime)"

definition gpsVelocity :: "('d, 'f, 't) qt \<Rightarrow> ('d, 'f) DataParser \<Rightarrow> 'd option" where
  "gpsVelocity q s = map_option (toDouble q) (at (m_data s) kGpsVelocity)"

definition gpsAltitude :: "('d, 'f, 't) qt \<Rightarrow> ('d, 'f) DataParser \<Rightarrow> 'd option" where
  "gpsAltitude q s = map_option (toDouble q) (at (m_data s) kGpsAltitude)"

definition gpsLatitude :: "('d, 'f, 't) qt \<Rightarrow> ('d, 'f) DataParser \<Rightarrow> 'd option" where
  "gpsLatitude q s = map_option (toDouble q) (at (m_data s) kGpsLatitude)"

definition gpsLongitude :: "('d, 'f, 't) qt \<Rightarrow> ('d, 'f) DataParser \<Rightarrow> 'd option" where
  "gpsLongitude q s = map_option (toDouble q) (at (m_data s) kGpsLongitude)"

definition gpsSatelliteCount :: "('d, 'f, 't) qt \<Rightarrow> ('d, 'f) DataParser \<Rightarrow> 32 word option" where
  "gpsSatelliteCount q s = map_option (toInt q) (at (m_data s) kGpsSatelliteCount)"

definition gyroscopeData :: "('d, 'f, 't) qt \<Rightarrow> ('d, 'f) DataParser \<Rightarrow> ('f \<times> 'f \<times> 'f) option" where
  "gyroscopeData q s = do {
     x \<leftarrow> at (m_data s) kGyroscopeX;
     y \<leftarrow> at (m_data s) kGyroscopeY;
     z \<leftarrow> at (m_data s) kGyroscopeZ;
     Some (toFloat q x, toFloat q y, toFloat q z)
   }"

definition accelerometerData :: "('d, 'f, 't) qt \<Rightarrow> ('d, 'f) DataParser \<Rightarrow> ('f \<times> 'f \<times> 'f) option" where
  "accelerometerData q s = do {
     x \<leftarrow> at (m_data s) kAccelerometerX;
     y \<leftarrow> at (m_data s) kAccelerometerY;
     z \<leftarrow> at (m_data s) kAccelerometerZ;
     Some (toFloat q x, toFloat q y, toFloat q z)
   }"

definition checksum :: "('d, 'f, 't) qt \<Rightarrow> ('d, 'f) DataParser \<Rightarrow> 32 word option" where
  "checksum q s = map_option (toUInt q) (at (m_data s) kChecksumCode)"

definition csvLoggingEnabled :: "('d, 'f) DataParser \<Rightarrow> bool" where
  "csvLoggingEnabled s = m_csvLoggingEnabled s"

definition enableCsvLogging ::
  "bool \<Rightarrow> ('d, 'f) DataParser \<Rightarrow> signal list \<times> ('d, 'f) DataParser" where
  "enableCsvLogging enabled s = ([csvLoggingEnabledChanged], s\<lparr>m_csvLoggingEnabled := enabled\<rparr>)"

subsection \<open>parsePacket\<close>

text \<open>
  The loop that rebuilds the packet without its checksum: \<open>is\<close> are the values the
  counter \<^verbatim>\<open>i\<close> still takes, \<open>rp\<close> the string built so far.
\<close>

primrec reconstruct_loop :: "char \<Rightarrow> string list \<Rightarrow> nat list \<Rightarrow> string \<Rightarrow> string option" where
  "reconstruct_loop sep data [] rp = Some rp"
| "reconstruct_loop sep data (i # is) rp =
     (if i \<noteq> kChecksumCode
      then do { t \<leftarrow> at data i; reconstruct_loop sep data is (rp @ t @ [sep]) }
      else reconstruct_loop sep data is rp)"

definition reconstruct :: "char \<Rightarrow> string list \<Rightarrow> string option" where
  "reconstruct sep data =
     reconstruct_loop sep data [0 ..< length (EmptyDataPacket () :: (unit, unit) QVariant list)] []"

text \<open>One \<^verbatim>\<open>info.insert(k, QVariant(conversion of data.at(k)))\<close>.\<close>

definition put ::
  "string list \<Rightarrow> nat \<Rightarrow> (string \<Rightarrow> ('d, 'f) QVariant) \<Rightarrow> ('d, 'f) QVariant list
    \<Rightarrow> ('d, 'f) QVariant list option" where
  "put data k conv info = do { t \<leftarrow> at data k; insert_at k (conv t) info }"

definition packet_information ::
  "('d, 'f, 't) qt \<Rightarrow> string list \<Rightarrow> ('d, 'f) QVariant list option" where
  "packet_information q data = do {
     info \<leftarrow> Some (EmptyDataPacket ());
     info \<leftarrow> put data kHeader VString info;
     info \<leftarrow> put data kTeamID (\<lambda>t. VInt (QString_toInt q t)) info;
     info \<leftarrow> put data kPacketCount (\<lambda>t. VInt (QString_toInt q t)) info;
     info \<leftarrow> put data kMisionTime (\<lambda>t. VUInt (QString_toUInt q t)) info;
     info \<leftarrow> put data kAltitude (\<lambda>t. VDouble (QString_toDouble q t)) info;
     info \<leftarrow> put data kBatteryVoltage (\<lambda>t. VDouble (QString_toDouble q t)) info;
     info \<leftarrow> put data kRelativeHumidity (\<lambda>t. VDouble (QString_toDouble q t)) info;
     info \<leftarrow> put data kUvRadiationIndex (\<lambda>t. VDouble (QString_toDouble q t)) info;
     info \<leftarrow> put data kInternalTemp (\<lambda>t. VDouble (QString_toDouble q t)) info;
     info \<leftarrow> put data kExternalTemp (\<lambda>t. VDouble (QString_toDouble q t)) info;
     info \<leftarrow> put data kAtmPressure (\<lambda>t. VDouble (QString_toDouble q t)) info;
     info \<leftarrow> put data kGpsTime (\<lambda>t. VUInt (QString_toUInt q t)) info;
     info \<leftarrow> put data kGpsAltitude (\<lambda>t. VDouble (QString_toDouble q t)) info;
     info \<leftarrow> put data kGpsVelocity (\<lambda>t. VDouble (QString_toDouble q t)) info;
     info \<leftarrow> put data kGpsAltitude (\<lambda>t. VDouble (QString_toDouble q t)) info;
     info \<leftarrow> put data kGpsLatitude (\<lambda>t. VDouble (QString_toDouble q t)) info;
     info \<leftarrow> put data kGpsLongitude (\<lambda>t. VDouble (QString_toDouble q t)) info;
     info \<leftarrow> put data kGpsSatelliteCount VString info;
     info \<leftarrow> put data kAccelerometerX (\<lambda>t. VFloat (QString_toFloat q t)) info;
     info \<leftarrow> put data kAccelerometerY (\<lambda>t. VFloat (QString_toFloat q t)) info;
     info \<leftarrow> put data kAccelerometerZ (\<lambda>t. VFloat (QString_toFloat q t)) info;
     info \<leftarrow> put data kGyroscopeX (\<lambda>t. VFloat (QString_toFloat q t)) info;
     info \<leftarrow> put data kGyroscopeY (\<lambda>t. VFloat (QString_toFloat q t)) info;
     info \<leftarrow> put data kGyroscopeZ (\<lambda>t. VFloat (QString_toFloat q t)) info;
     put data kChecksumCode (\<lambda>t. VUInt (QString_toUInt q t)) info
   }"

text \<open>
  The third block, "Data handling": the vector is filled, the mission times are
  compared, the vector replaces \<^verbatim>\<open>m_data\<close>. The slot \<^verbatim>\<open>saveCsvData\<close> that \<^verbatim>\<open>dataParsed\<close>
  runs has an empty body.
\<close>

definition data_handling ::
  "('d, 'f, 't) qt \<Rightarrow> ('d, 'f) DataParser \<Rightarrow> string list
    \<Rightarrow> (signal list \<times> ('d, 'f) DataParser) option" where
  "data_handling q s data = do {
     info \<leftarrow> packet_information q data;
     current \<leftarrow> missionTime q s;
     v \<leftarrow> at info kMisionTime;
     Some ((if current > ucast (toUInt q v) then [satelliteReset] else []) @ [dataParsed],
           s\<lparr>m_data := info\<rparr>)
   }"

text \<open>
  The second block, "CRC-32 validation", and what follows it. \<open>buffer\<close> is what is read
  through the pointer kept from the destroyed temporary, \<^verbatim>\<open>buffer_size\<close> characters long.
\<close>

definition crc32_validation ::
  "constants \<Rightarrow> ('d, 'f, 't) qt \<Rightarrow> ('d, 'f) DataParser \<Rightarrow> string list
    \<Rightarrow> (signal list \<times> ('d, 'f) DataParser) option" where
  "crc32_validation c q s data = do {
     rp \<leftarrow> reconstruct (DATA_SEPARATOR c) data;
     let buffer = destroyed_c_str q rp;
     let localCrc32 = CRC32 c buffer;
     t \<leftarrow> at data kChecksumCode;
     let remoteCrc32 = QString_toUInt q t;
     if localCrc32 \<noteq> remoteCrc32 then Some ([packetError], s)
     else data_handling q s data
   }"

text \<open>The length check on the split packet, which ends the first block.\<close>

definition length_validation ::
  "constants \<Rightarrow> ('d, 'f, 't) qt \<Rightarrow> ('d, 'f) DataParser \<Rightarrow> string list
    \<Rightarrow> (signal list \<times> ('d, 'f) DataParser) option" where
  "length_validation c q s data =
     (if length data \<noteq> length (EmptyDataPacket () :: ('d, 'f) QVariant list)
      then Some ([packetError], s)
      else crc32_validation c q s data)"

definition parsePacket ::
  "constants \<Rightarrow> ('d, 'f, 't) qt \<Rightarrow> ('d, 'f) DataParser \<Rightarrow> string
    \<Rightarrow> (signal list \<times> ('d, 'f) DataParser) option" where
  "parsePacket c q s packet =
     (if packet = [] then Some ([packetError], s)
      else if \<not> prefix (HEADER_CODE c) packet then Some ([packetError], s)
      else if \<not> endsWith packet (EOT_SECONDARY c) then Some ([packetError], s)
      else let copy = chop 1 packet in
           length_validation c q s (split (DATA_SEPARATOR c) copy))"

subsection \<open>A concrete ground station\<close>

text \<open>
  Modelled from the spec: Constants.h and crc32.h are not among the sources. The header
  literal and the separator are those of the spec's concrete scenario
  (\<^verbatim>\<open>HEADER,1,5,1000,...\<close>); the spec names no trailer character, and \<^verbatim>\<open>$\<close> stands for it
  here; the checksum is the common CRC-32 the spec asks for (reflected polynomial
  \<^verbatim>\<open>EDB88320\<close>, register and result inverted), computed bit by bit.
\<close>

unbundle bit_operations_syntax

definition crc32_step :: "32 word \<Rightarrow> 32 word" where
  "crc32_step w = (if bit w 0 then drop_bit 1 w XOR 0xEDB88320 else drop_bit 1 w)"

definition crc32_byte :: "32 word \<Rightarrow> char \<Rightarrow> 32 word" where
  "crc32_byte w ch = (crc32_step ^^ 8) (w XOR of_nat (of_char ch))"

definition crc32 :: "string \<Rightarrow> 32 word" where
  "crc32 bs = NOT (fold (\<lambda>ch w. crc32_byte w ch) bs (- 1))"

definition station :: constants where
  "station = \<lparr>HEADER_CODE = ''HEADER'', EOT_SECONDARY = CHR ''$'',
              DATA_SEPARATOR = CHR '','', CRC32 = crc32\<rparr>"

text \<open>
  The conversions of the concrete station. A whole number is read as a decimal numeral,
  with a minus sign for an \<^verbatim>\<open>int\<close>, and is 0 when the token is not one or does not fit 32
  bits, which is what the Qt documentation promises of a failed conversion. No
  floating-point arithmetic is modelled: a \<^verbatim>\<open>double\<close> or \<^verbatim>\<open>float\<close> is represented by what
  it was converted from, a calendar time by the text it was read from. The destroyed
  temporary is taken to hold its characters still, the kindest case.
\<close>

definition digit :: "char \<Rightarrow> int option" where
  "digit ch = (let n = of_char ch in if 48 \<le> n \<and> n \<le> (57 :: int) then Some (n - 48) else None)"

primrec digits :: "string \<Rightarrow> int \<Rightarrow> int option" where
  "digits [] n = Some n"
| "digits (ch # s) n = (case digit ch of None \<Rightarrow> None | Some d \<Rightarrow> digits s (10 * n + d))"

definition decimal :: "string \<Rightarrow> int option" where
  "decimal s = (if s = [] then None else digits s 0)"

definition decimal_toUInt :: "string \<Rightarrow> 32 word" where
  "decimal_toUInt s =
     (case decimal s of None \<Rightarrow> 0 | Some n \<Rightarrow> if n < 2 ^ 32 then of_int n else 0)"

definition decimal_toInt :: "string \<Rightarrow> 32 word" where
  "decimal_toInt s =
     (case s of
        [] \<Rightarrow> 0
      | ch # r \<Rightarrow>
          if ch = CHR ''-''
          then (case decimal r of None \<Rightarrow> 0 | Some n \<Rightarrow> if n \<le> 2 ^ 31 then of_int (- n) else 0)
          else (case decimal s of None \<Rightarrow> 0 | Some n \<Rightarrow> if n < 2 ^ 31 then of_int n else 0))"

datatype number = FromText string | FromInt "32 word"

definition number_of :: "(number, number) QVariant \<Rightarrow> number" where
  "number_of v =
     (case v of VInt i \<Rightarrow> FromInt i | VUInt u \<Rightarrow> FromInt u | VDouble d \<Rightarrow> d
      | VFloat f \<Rightarrow> f | VString s \<Rightarrow> FromText s)"

definition whole_of :: "(number, number) QVariant \<Rightarrow> 32 word" where
  "whole_of v =
     (case v of VInt i \<Rightarrow> i | VUInt u \<Rightarrow> u | VString s \<Rightarrow> decimal_toInt s
      | VDouble d \<Rightarrow> 0 | VFloat f \<Rightarrow> 0)"

definition station_qt :: "(number, number, string) qt" where
  "station_qt = \<lparr>QString_toInt = decimal_toInt, QString_toUInt = decimal_toUInt,
                 QString_toDouble = FromText, QString_toFloat = FromText,
                 QString_toDateTime = DateTime,
                 convert_toInt = whole_of, convert_toUInt = whole_of,
                 convert_toDouble = number_of, convert_toFloat = number_of,
                 destroyed_c_str = (\<lambda>rp. rp)\<rparr>"

text \<open>
  The frame of the spec's concrete scenario with GPS values filled in, first with the 23
  tokens the length check asks for, then with a 24th token, the CRC-32 of the 23 tokens
  and their separators; and the tokens of both.
\<close>

definition frame23 :: string where
  "frame23 = ''HEADER,1,5,1000,100.5,7.4,0,0,0,0,0,0,98.2,3.5,20.6,-100.4,8,0,0,0,0,0,0$''"

definition frame24 :: string where
  "frame24 =
     ''HEADER,1,5,1000,100.5,7.4,0,0,0,0,0,0,98.2,3.5,20.6,-100.4,8,0,0,0,0,0,0,3095714366$''"

definition tokens23 :: "string list" where
  "tokens23 = [''HEADER'', ''1'', ''5'', ''1000'', ''100.5'', ''7.4'', ''0'', ''0'', ''0'', ''0'',
     ''0'', ''0'', ''98.2'', ''3.5'', ''20.6'', ''-100.4'', ''8'', ''0'', ''0'', ''0'', ''0'', ''0'', ''0'']"

definition tokens24 :: "string list" where
  "tokens24 = tokens23 @ [''3095714366'']"

section \<open>Properties\<close>

subsection \<open>The empty packet, indexing and the split\<close>

lemma append_zero_replicate: "append_zero n packet = packet @ replicate n (VInt 0)"
  by (induction n arbitrary: packet) (simp_all add: replicate_append_same)

lemma EmptyDataPacket_replicate: "EmptyDataPacket u = replicate kChecksumCode (VInt 0)"
  by (simp add: EmptyDataPacket_def append_zero_replicate)

lemma length_EmptyDataPacket: "length (EmptyDataPacket u) = kChecksumCode"
  by (simp add: EmptyDataPacket_replicate)

lemma at_Some: "i < length xs \<Longrightarrow> at xs i = Some (xs ! i)"
  by (simp add: at_def)

lemma at_None: "length xs \<le> i \<Longrightarrow> at xs i = None"
  by (simp add: at_def)

lemma chop_endsWith: "endsWith packet e \<Longrightarrow> chop 1 packet @ [e] = packet"
  unfolding endsWith_def chop_def
  by (metis append_butlast_last_id butlast_conv_take)

lemma length_split: "length (split sep s) = Suc (count_list s sep)"
  by (induction s) (auto split: list.splits)

subsection \<open>The blocks of parsePacket\<close>

text \<open>
  The loop over \<open>[m ..< n]\<close> appends every token it visits, as long as the counter
  stays below the checksum position.
\<close>

lemma reconstruct_loop_upt:
  "n \<le> length data \<Longrightarrow> n \<le> kChecksumCode \<Longrightarrow> m \<le> n \<Longrightarrow>
   reconstruct_loop sep data [m ..< n] rp
     = Some (rp @ concat (map (\<lambda>t. t @ [sep]) (take (n - m) (drop m data))))"
proof (induction "n - m" arbitrary: m rp)
  case 0
  then show ?case by simp
next
  case (Suc k)
  then have m: "m < n" by simp
  then have upt: "[m ..< n] = m # [Suc m ..< n]" by (simp add: upt_conv_Cons)
  have d: "drop m data = data ! m # drop (Suc m) data"
    using m Suc.prems by (simp add: Cons_nth_drop_Suc)
  have k: "k = n - Suc m" using Suc.hyps by simp
  have n: "n - m = Suc (n - Suc m)" using m by simp
  show ?case
    using Suc.hyps(1)[OF k, of "rp @ data ! m @ [sep]"] Suc.prems m
    by (simp add: upt at_def d n)
qed

lemma reconstruct_all:
  "kChecksumCode \<le> length data \<Longrightarrow>
   reconstruct sep data = Some (concat (map (\<lambda>t. t @ [sep]) (take kChecksumCode data)))"
  using reconstruct_loop_upt [of kChecksumCode data 0 sep "[]"]
  by (simp add: reconstruct_def length_EmptyDataPacket)

lemma crc32_validation_None:
  "length data = kChecksumCode \<Longrightarrow> crc32_validation c q s data = None"
  by (simp add: crc32_validation_def reconstruct_all at_None)

lemma length_validation_cases:
  "length_validation c q s data
     = (if length data = kChecksumCode then None else Some ([packetError], s))"
  by (simp add: length_validation_def length_EmptyDataPacket crc32_validation_None)

lemma parsePacket_counted:
  assumes "packet \<noteq> []"
    and "prefix (HEADER_CODE c) packet"
    and "endsWith packet (EOT_SECONDARY c)"
    and "length (split (DATA_SEPARATOR c) (chop 1 packet)) = kChecksumCode"
  shows "parsePacket c q s packet = None"
  using assms by (simp add: parsePacket_def length_validation_cases)


lemma parsePacket_None_iff:
  "parsePacket c q s packet = None \<longleftrightarrow>
     packet \<noteq> [] \<and> prefix (HEADER_CODE c) packet \<and> endsWith packet (EOT_SECONDARY c)
     \<and> length (split (DATA_SEPARATOR c) (chop 1 packet)) = kChecksumCode"
  by (simp add: parsePacket_def length_validation_cases)

text \<open>
  What the last two blocks do with a token list that does have a token at the checksum
  position, which the length check never lets through: the vector that "Data handling"
  builds, its result, and the comparison of the two checksums.
\<close>

lemma packet_information_Some:
  assumes "kChecksumCode < length data"
  shows "packet_information q data = Some (
    [VString (data ! kHeader),
     VInt (QString_toInt q (data ! kTeamID)),
     VInt (QString_toInt q (data ! kPacketCount)),
     VUInt (QString_toUInt q (data ! kMisionTime)),
     VDouble (QString_toDouble q (data ! kAltitude)),
     VDouble (QString_toDouble q (data ! kBatteryVoltage)),
     VDouble (QString_toDouble q (data ! kRelativeHumidity)),
     VDouble (QString_toDouble q (data ! kUvRadiationIndex)),
     VDouble (QString_toDouble q (data ! kInternalTemp)),
     VDouble (QString_toDouble q (data ! kExternalTemp)),
     VDouble (QString_toDouble q (data ! kAtmPressure)),
     VUInt (QString_toUInt q (data ! kGpsTime)),
     VDouble (QString_toDouble q (data ! kGpsAltitude)),
     VDouble (QString_toDouble q (data ! kGpsAltitude)),
     VDouble (QString_toDouble q (data ! kGpsLatitude)),
     VDouble (QString_toDouble q (data ! kGpsLongitude)),
     VString (data ! kGpsSatelliteCount),
     VFloat (QString_toFloat q (data ! kAccelerometerX)),
     VFloat (QString_toFloat q (data ! kAccelerometerY)),
     VFloat (QString_toFloat q (data ! kAccelerometerZ)),
     VFloat (QString_toFloat q (data ! kGyroscopeX)),
     VFloat (QString_toFloat q (data ! kGyroscopeY)),
     VFloat (QString_toFloat q (data ! kGyroscopeZ)),
     VUInt (QString_toUInt q (data ! kChecksumCode)),
     VDouble (QString_toDouble q (data ! kGpsVelocity))] @ replicate kChecksumCode (VInt 0))"
  using assms
  by (auto simp add: packet_information_def put_def at_def insert_at_def
      EmptyDataPacket_replicate positions)

lemma packet_information_None:
  "length data \<le> kChecksumCode \<Longrightarrow> packet_information q data = None"
  by (simp add: packet_information_def put_def at_None [of data kChecksumCode])

lemma data_handling_Some:
  assumes "data_handling q s data = Some (signals, s')"
  shows "kChecksumCode < length data"
    and "packet_information q data = Some (m_data s')"
  using assms packet_information_None [of data q]
  by (auto simp add: data_handling_def not_le [symmetric] split: Option.bind_splits)

lemma data_handling_result:
  assumes "kChecksumCode < length data" and "missionTime q s = Some current"
  shows "\<exists>info. packet_information q data = Some info
          \<and> data_handling q s data =
              Some ((if current > ucast (QString_toUInt q (data ! kMisionTime))
                     then [satelliteReset] else []) @ [dataParsed],
                    s\<lparr>m_data := info\<rparr>)"
  using assms
  by (simp add: data_handling_def packet_information_Some at_def positions)

lemma crc32_validation_result:
  assumes "kChecksumCode < length data"
  shows "crc32_validation c q s data =
          (if CRC32 c (destroyed_c_str q
                 (concat (map (\<lambda>t. t @ [DATA_SEPARATOR c]) (take kChecksumCode data))))
                \<noteq> QString_toUInt q (data ! kChecksumCode)
           then Some ([packetError], s) else data_handling q s data)"
  using assms by (simp add: crc32_validation_def reconstruct_all at_def)

lemma unat_ucast_32_64: "unat (ucast (w :: 32 word) :: 64 word) < 2 ^ 32"
proof -
  have "unat (ucast w :: 64 word) = unat w"
    by (simp add: unsigned_ucast_eq take_bit_nat_eq_self_iff)
      (rule less_trans [OF unsigned_less], simp)
  then show ?thesis
    using unsigned_less [of w, where ?'a = nat] by simp
qed

text \<open>
  What every accessor returns once "Data handling" has stored its vector. The GPS
  altitude is inserted twice, before and after the GPS velocity, which pushes the
  velocity out of its slot: \<^verbatim>\<open>gpsVelocity()\<close> reads a GPS altitude. A \<^verbatim>\<open>uint\<close> is no calendar
  time, so \<^verbatim>\<open>gpsTime()\<close> is invalid.
\<close>

lemma data_handling_accessors:
  assumes "data_handling q s data = Some (signals, s')"
  shows "teamId q s' = Some (QString_toInt q (data ! kTeamID))"
    and "packetCount q s' = Some (QString_toInt q (data ! kPacketCount))"
    and "missionTime q s' = Some (ucast (QString_toUInt q (data ! kMisionTime)))"
    and "altitude q s' = Some (QString_toDouble q (data ! kAltitude))"
    and "batteryVoltage q s' = Some (QString_toDouble q (data ! kBatteryVoltage))"
    and "internalTemperature q s' = Some (QString_toDouble q (data ! kInternalTemp))"
    and "externalTemperature q s' = Some (QString_toDouble q (data ! kExternalTemp))"
    and "atmosphericPressure q s' = Some (QString_toDouble q (data ! kAtmPressure))"
    and "gpsTime q s' = Some InvalidDateTime"
    and "gpsVelocity q s' = Some (QString_toDouble q (data ! kGpsAltitude))"
    and "gpsAltitude q s' = Some (QString_toDouble q (data ! kGpsAltitude))"
    and "gpsLatitude q s' = Some (QString_toDouble q (data ! kGpsLatitude))"
    and "gpsLongitude q s' = Some (QString_toDouble q (data ! kGpsLongitude))"
    and "gpsSatelliteCount q s' = Some (convert_toInt q (VString (data ! kGpsSatelliteCount)))"
    and "gyroscopeData q s' = Some (QString_toFloat q (data ! kGyroscopeX),
           QString_toFloat q (data ! kGyroscopeY), QString_toFloat q (data ! kGyroscopeZ))"
    and "accelerometerData q s' = Some (QString_toFloat q (data ! kAccelerometerX),
           QString_toFloat q (data ! kAccelerometerY), QString_toFloat q (data ! kAccelerometerZ))"
    and "checksum q s' = Some (QString_toUInt q (data ! kChecksumCode))"
proof -
  have len: "kChecksumCode < length data"
    using data_handling_Some(1) [OF assms] .
  note info = data_handling_Some(2) [OF assms, unfolded packet_information_Some [OF len],
      simplified, symmetric]
  show "teamId q s' = Some (QString_toInt q (data ! kTeamID))"
    by (simp add: teamId_def at_def info) (simp add: positions)
  show "packetCount q s' = Some (QString_toInt q (data ! kPacketCount))"
    by (simp add: packetCount_def at_def info) (simp add: positions)
  show "missionTime q s' = Some (ucast (QString_toUInt q (data ! kMisionTime)))"
    by (simp add: missionTime_def at_def info) (simp add: positions)
  show "altitude q s' = Some (QString_toDouble q (data ! kAltitude))"
    by (simp add: altitude_def at_def info) (simp add: positions)
  show "batteryVoltage q s' = Some (QString_toDouble q (data ! kBatteryVoltage))"
    by (simp add: batteryVoltage_def at_def info) (simp add: positions)
  show "internalTemperature q s' = Some (QString_toDouble q (data ! kInternalTemp))"
    by (simp add: internalTemperature_def at_def info) (simp add: positions)
  show "externalTemperature q s' = Some (QString_toDouble q (data ! kExternalTemp))"
    by (simp add: externalTemperature_def at_def info) (simp add: positions)
  show "atmosphericPressure q s' = Some (QString_toDouble q (data ! kAtmPressure))"
    by (simp add: atmosphericPressure_def at_def info) (simp add: positions)
  show "gpsTime q s' = Some InvalidDateTime"
    by (simp add: gpsTime_def at_def info) (simp add: positions)
  show "gpsVelocity q s' = Some (QString_toDouble q (data ! kGpsAltitude))"
    by (simp add: gpsVelocity_def at_def info) (simp add: positions)
  show "gpsAltitude q s' = Some (QString_toDouble q (data ! kGpsAltitude))"
    by (simp add: gpsAltitude_def at_def info) (simp add: positions)
  show "gpsLatitude q s' = Some (QString_toDouble q (data ! kGpsLatitude))"
    by (simp add: gpsLatitude_def at_def info) (simp add: positions)
  show "gpsLongitude q s' = Some (QString_toDouble q (data ! kGpsLongitude))"
    by (simp add: gpsLongitude_def at_def info) (simp add: positions)
  show "gpsSatelliteCount q s' = Some (convert_toInt q (VString (data ! kGpsSatelliteCount)))"
    by (simp add: gpsSatelliteCount_def at_def info) (simp add: positions)
  show "gyroscopeData q s' = Some (QString_toFloat q (data ! kGyroscopeX),
           QString_toFloat q (data ! kGyroscopeY), QString_toFloat q (data ! kGyroscopeZ))"
    by (simp add: gyroscopeData_def at_def info) (simp add: positions)
  show "accelerometerData q s' = Some (QString_toFloat q (data ! kAccelerometerX),
           QString_toFloat q (data ! kAccelerometerY), QString_toFloat q (data ! kAccelerometerZ))"
    by (simp add: accelerometerData_def at_def info) (simp add: positions)
  show "checksum q s' = Some (QString_toUInt q (data ! kChecksumCode))"
    by (simp add: checksum_def at_def info) (simp add: positions)
qed



text \<open>
  What "Data handling" would do with the tokens of one frame twice in a row, and with a
  mission time: after the first run the stored mission time is the 32-bit conversion of
  the token, so the second run compares that value with itself, signals no
  satelliteReset and stores the same vector; and the mission time that is read back is
  always below \<open>2 ^ 32\<close>, the token being converted by \<^verbatim>\<open>QString::toUInt\<close> although
  \<^verbatim>\<open>missionTime()\<close> returns a 64-bit integer.
\<close>

lemma data_handling_twice:
  assumes "data_handling q s data = Some (signals, s')"
  shows "data_handling q s' data = Some ([dataParsed], s')"
proof -
  have len: "kChecksumCode < length data"
    and info: "packet_information q data = Some (m_data s')"
    using data_handling_Some [OF assms] by simp_all
  have "missionTime q s' = Some (ucast (QString_toUInt q (data ! kMisionTime)))"
    using data_handling_accessors(3) [OF assms] .
  from data_handling_result [OF len this] info show ?thesis by simp
qed

lemma data_handling_missionTime:
  assumes "data_handling q s data = Some (signals, s')"
  shows "missionTime q s' = Some (ucast (QString_toUInt q (data ! kMisionTime)))
       \<and> unat (ucast (QString_toUInt q (data ! kMisionTime)) :: 64 word) < 2 ^ 32"
  using data_handling_accessors(3) [OF assms] unat_ucast_32_64 by simp

subsection \<open>The concrete frames\<close>

lemma split_frame23: "split (DATA_SEPARATOR station) (chop 1 frame23) = tokens23"
  by (simp add: station_def frame23_def tokens23_def chop_def)

lemma split_frame24: "split (DATA_SEPARATOR station) (chop 1 frame24) = tokens24"
  by (simp add: station_def frame24_def tokens24_def tokens23_def chop_def)

lemma frame23_framed:
  "frame23 \<noteq> [] \<and> prefix (HEADER_CODE station) frame23
   \<and> endsWith frame23 (EOT_SECONDARY station)"
  by (simp add: station_def frame23_def endsWith_def)

lemma frame24_framed:
  "frame24 \<noteq> [] \<and> prefix (HEADER_CODE station) frame24
   \<and> endsWith frame24 (EOT_SECONDARY station)"
  by (simp add: station_def frame24_def endsWith_def)

lemma length_tokens23: "length tokens23 = kChecksumCode"
  by (simp add: tokens23_def kChecksumCode_def)

lemma length_tokens24: "length tokens24 = 24"
  by (simp add: tokens24_def tokens23_def)

lemma missionTime_initial: "missionTime q (DataParser ()) = Some 0"
  by (simp add: missionTime_def DataParser_def at_def EmptyDataPacket_replicate positions)

section \<open>The claims\<close>

text \<open>
  C1 claims that no call of parsePacket indexes a list or vector out of bounds and that,
  once the token count has been checked, the read of the checksum token at index
  kChecksumCode is in bounds. The code does the opposite. The count that the length
  check asks for is the size of the empty packet, kChecksumCode, so the tokens of a
  packet that passes it have the indices 0 to kChecksumCode - 1: for every packet that
  passes the three frame checks and the length check, \<^verbatim>\<open>data.at(kChecksumCode)\<close> is out
  of range and the call fails there.
\<close>

theorem parsePacket_checksum_read_out_of_range:
  assumes "packet \<noteq> []"
    and "prefix (HEADER_CODE c) packet"
    and "endsWith packet (EOT_SECONDARY c)"
    and "length (split (DATA_SEPARATOR c) (chop 1 packet)) = kChecksumCode"
  shows "at (split (DATA_SEPARATOR c) (chop 1 packet)) kChecksumCode = None
       \<and> parsePacket c q s packet = None"
  using assms by (simp add: parsePacket_def length_validation_cases at_None)

theorem parsePacket_checksum_read_out_of_range_witness:
  "frame23 \<noteq> [] \<and> prefix (HEADER_CODE station) frame23
   \<and> endsWith frame23 (EOT_SECONDARY station)
   \<and> length (split (DATA_SEPARATOR station) (chop 1 frame23)) = kChecksumCode
   \<and> at (split (DATA_SEPARATOR station) (chop 1 frame23)) kChecksumCode = None
   \<and> parsePacket station station_qt (DataParser ()) frame23 = None"
proof -
  have framed: "frame23 \<noteq> []" "prefix (HEADER_CODE station) frame23"
    "endsWith frame23 (EOT_SECONDARY station)"
    using frame23_framed by simp_all
  have counted: "length (split (DATA_SEPARATOR station) (chop 1 frame23)) = kChecksumCode"
    by (simp only: split_frame23 length_tokens23)
  show ?thesis
    using parsePacket_checksum_read_out_of_range
      [OF framed counted, of station_qt "DataParser ()"] framed counted
    by simp
qed

text \<open>
  C2 claims that, for a well-framed packet with the right token count, the CRC-32 is
  computed over every token but the checksum token, each followed by the separator, and
  that a mismatch with the checksum token is a packetError that leaves the reading
  untouched. In the code the block "CRC-32 validation" receives exactly kChecksumCode
  tokens: its loop appends every one of them, the last included, each followed by the
  separator; there is no token at the checksum position, so the read of the remote
  checksum is out of range and the block fails before the two checksums are compared,
  whatever CRC32 computes. No mismatch is ever reported.
\<close>

theorem crc32_validation_reads_past_the_tokens:
  assumes "length data = kChecksumCode"
  shows "reconstruct (DATA_SEPARATOR c) data
           = Some (concat (map (\<lambda>t. t @ [DATA_SEPARATOR c]) data))
       \<and> at data kChecksumCode = None
       \<and> crc32_validation c q s data = None"
  using assms by (simp add: reconstruct_all crc32_validation_None at_None)

theorem crc32_validation_reads_past_the_tokens_witness:
  "length tokens23 = kChecksumCode
   \<and> reconstruct (DATA_SEPARATOR station) tokens23
        = Some (concat (map (\<lambda>t. t @ [DATA_SEPARATOR station]) tokens23))
   \<and> at tokens23 kChecksumCode = None
   \<and> crc32_validation station station_qt (DataParser ()) tokens23 = None"
  using crc32_validation_reads_past_the_tokens
    [OF length_tokens23, of station station_qt "DataParser ()"] length_tokens23
  by simp

text \<open>
  C3: a packet that is empty, or does not begin with HEADER_CODE, or does not end with
  the secondary end-of-transmission character, makes parsePacket signal packetError and
  return the state it was given. A packet that passes the three checks is its copy
  without the last character followed by that one character, the secondary EOT, and what
  is split into tokens is this copy.
\<close>

theorem parsePacket_frame_validation:
  "(packet = [] \<or> \<not> prefix (HEADER_CODE c) packet \<or> \<not> endsWith packet (EOT_SECONDARY c)
      \<longrightarrow> parsePacket c q s packet = Some ([packetError], s))
   \<and> (packet \<noteq> [] \<and> prefix (HEADER_CODE c) packet \<and> endsWith packet (EOT_SECONDARY c)
      \<longrightarrow> chop 1 packet @ [EOT_SECONDARY c] = packet
          \<and> parsePacket c q s packet
              = length_validation c q s (split (DATA_SEPARATOR c) (chop 1 packet)))"
  by (auto simp add: parsePacket_def chop_endsWith simp del: One_nat_def)

theorem parsePacket_frame_validation_witness:
  "parsePacket station station_qt (DataParser ()) [] = Some ([packetError], DataParser ())
   \<and> parsePacket station station_qt (DataParser ()) ''HEADE,1,5$''
       = Some ([packetError], DataParser ())
   \<and> parsePacket station station_qt (DataParser ()) ''HEADER,1,5''
       = Some ([packetError], DataParser ())
   \<and> chop 1 frame23 @ [EOT_SECONDARY station] = frame23
   \<and> parsePacket station station_qt (DataParser ()) frame23
       = length_validation station station_qt (DataParser ()) tokens23"
proof -
  have "parsePacket station station_qt (DataParser ()) [] = Some ([packetError], DataParser ())"
    using parsePacket_frame_validation [of "[]" station station_qt "DataParser ()"] by simp
  moreover have "parsePacket station station_qt (DataParser ()) ''HEADE,1,5$''
       = Some ([packetError], DataParser ())"
    using parsePacket_frame_validation [of "''HEADE,1,5$''" station station_qt "DataParser ()"]
    by (simp add: station_def)
  moreover have "parsePacket station station_qt (DataParser ()) ''HEADER,1,5''
       = Some ([packetError], DataParser ())"
    using parsePacket_frame_validation [of "''HEADER,1,5''" station station_qt "DataParser ()"]
    by (simp add: station_def endsWith_def)
  moreover have "chop 1 frame23 @ [EOT_SECONDARY station] = frame23
   \<and> parsePacket station station_qt (DataParser ()) frame23
       = length_validation station station_qt (DataParser ()) tokens23"
    using parsePacket_frame_validation [of frame23 station station_qt "DataParser ()"]
      frame23_framed
    by (simp add: split_frame23 del: One_nat_def)
  ultimately show ?thesis by simp
qed

text \<open>
  C4: for a packet that passes the frame checks, a token count other than 23 makes
  parsePacket signal packetError and return the state it was given. The result is the
  same for every choice of the conversions \<open>q\<close>: no token has been converted.
\<close>

theorem parsePacket_field_count:
  assumes "packet \<noteq> []"
    and "prefix (HEADER_CODE c) packet"
    and "endsWith packet (EOT_SECONDARY c)"
    and "length (split (DATA_SEPARATOR c) (chop 1 packet)) \<noteq> 23"
  shows "parsePacket c q s packet = Some ([packetError], s)"
  using assms by (simp add: parsePacket_def length_validation_cases kChecksumCode_def)

theorem parsePacket_field_count_witness:
  "frame24 \<noteq> [] \<and> prefix (HEADER_CODE station) frame24
   \<and> endsWith frame24 (EOT_SECONDARY station)
   \<and> length (split (DATA_SEPARATOR station) (chop 1 frame24)) = 24
   \<and> parsePacket station station_qt (DataParser ()) frame24
       = Some ([packetError], DataParser ())"
proof -
  have framed: "frame24 \<noteq> []" "prefix (HEADER_CODE station) frame24"
    "endsWith frame24 (EOT_SECONDARY station)"
    using frame24_framed by simp_all
  have counted: "length (split (DATA_SEPARATOR station) (chop 1 frame24)) = 24"
    by (simp only: split_frame24 length_tokens24)
  then have "length (split (DATA_SEPARATOR station) (chop 1 frame24)) \<noteq> 23"
    by simp
  from parsePacket_field_count [OF framed this, of station_qt "DataParser ()"]
  show ?thesis using framed counted by simp
qed

text \<open>
  C6 claims that decoding a frame built from given field values returns every value
  through the accessors, gpsVelocity() returning the GPS velocity. No frame is decoded
  (see C1). Besides, whenever the block "Data handling" completes, gpsVelocity() returns
  the conversion of the GPS-altitude token, not of the GPS-velocity token, because the
  block inserts the GPS altitude a second time; gpsAltitude(), gpsLatitude() and
  gpsLongitude() return the conversions of their own tokens.
\<close>

theorem data_handling_gpsVelocity:
  assumes "data_handling q s data = Some (signals, s')"
  shows "gpsVelocity q s' = Some (QString_toDouble q (data ! kGpsAltitude))
       \<and> gpsAltitude q s' = Some (QString_toDouble q (data ! kGpsAltitude))
       \<and> gpsLatitude q s' = Some (QString_toDouble q (data ! kGpsLatitude))
       \<and> gpsLongitude q s' = Some (QString_toDouble q (data ! kGpsLongitude))"
  using data_handling_accessors [OF assms] by simp

theorem data_handling_gpsVelocity_witness:
  "\<exists>signals s'. data_handling station_qt (DataParser ()) tokens24 = Some (signals, s')
     \<and> tokens24 ! kGpsAltitude = ''98.2'' \<and> tokens24 ! kGpsVelocity = ''3.5''
     \<and> gpsVelocity station_qt s' = Some (QString_toDouble station_qt ''98.2'')
     \<and> gpsAltitude station_qt s' = Some (QString_toDouble station_qt ''98.2'')
     \<and> gpsLatitude station_qt s' = Some (QString_toDouble station_qt ''20.6'')
     \<and> gpsLongitude station_qt s' = Some (QString_toDouble station_qt ''-100.4'')"
proof -
  have "kChecksumCode < length tokens24"
    by (simp add: length_tokens24 kChecksumCode_def)
  from data_handling_result [OF this missionTime_initial, of station_qt]
  obtain signals s'
    where handled: "data_handling station_qt (DataParser ()) tokens24 = Some (signals, s')"
    by blast
  have tokens: "tokens24 ! kGpsAltitude = ''98.2''" "tokens24 ! kGpsVelocity = ''3.5''"
    "tokens24 ! kGpsLatitude = ''20.6''" "tokens24 ! kGpsLongitude = ''-100.4''"
    by (simp_all add: tokens24_def tokens23_def positions)
  show ?thesis
    using data_handling_gpsVelocity [OF handled] handled tokens by simp
qed



text \<open>
  C10: the vector that EmptyDataPacket builds, which is the reading of a parser that
  has decoded nothing yet, has exactly kChecksumCode elements, at the indices 0 to
  kChecksumCode - 1, all of them the integer 0. The accessor checksum() reads the index
  kChecksumCode, past the end: it returns no value. Every other accessor reads inside the
  vector and returns what the integer 0 converts to (0, the conversion of 0 to a double or
  a float, and the invalid calendar time for gpsTime()).
\<close>

theorem initial_checksum_out_of_range:
  fixes q :: "('d, 'f, 't) qt"
  shows "length (EmptyDataPacket () :: ('d, 'f) QVariant list) = kChecksumCode
   \<and> (\<forall>i. at (EmptyDataPacket () :: ('d, 'f) QVariant list) i
           = (if i < kChecksumCode then Some (VInt 0) else None))
   \<and> m_data (DataParser () :: ('d, 'f) DataParser) = EmptyDataPacket ()
   \<and> checksum q (DataParser ()) = None
   \<and> teamId q (DataParser ()) = Some 0
   \<and> packetCount q (DataParser ()) = Some 0
   \<and> missionTime q (DataParser ()) = Some 0
   \<and> altitude q (DataParser ()) = Some (toDouble q (VInt 0))
   \<and> batteryVoltage q (DataParser ()) = Some (toDouble q (VInt 0))
   \<and> internalTemperature q (DataParser ()) = Some (toDouble q (VInt 0))
   \<and> externalTemperature q (DataParser ()) = Some (toDouble q (VInt 0))
   \<and> atmosphericPressure q (DataParser ()) = Some (toDouble q (VInt 0))
   \<and> gpsTime q (DataParser ()) = Some InvalidDateTime
   \<and> gpsVelocity q (DataParser ()) = Some (toDouble q (VInt 0))
   \<and> gpsAltitude q (DataParser ()) = Some (toDouble q (VInt 0))
   \<and> gpsLatitude q (DataParser ()) = Some (toDouble q (VInt 0))
   \<and> gpsLongitude q (DataParser ()) = Some (toDouble q (VInt 0))
   \<and> gpsSatelliteCount q (DataParser ()) = Some 0
   \<and> gyroscopeData q (DataParser ())
       = Some (toFloat q (VInt 0), toFloat q (VInt 0), toFloat q (VInt 0))
   \<and> accelerometerData q (DataParser ())
       = Some (toFloat q (VInt 0), toFloat q (VInt 0), toFloat q (VInt 0))"
proof -
  have slots: "at (EmptyDataPacket () :: ('d, 'f) QVariant list) i
      = (if i < kChecksumCode then Some (VInt 0) else None)" for i
    by (simp add: at_def EmptyDataPacket_replicate)
  show ?thesis
    unfolding checksum_def teamId_def packetCount_def missionTime_def altitude_def
      batteryVoltage_def internalTemperature_def externalTemperature_def
      atmosphericPressure_def gpsTime_def gpsVelocity_def gpsAltitude_def gpsLatitude_def
      gpsLongitude_def gpsSatelliteCount_def gyroscopeData_def accelerometerData_def
      DataParser_def
    by (simp add: slots length_EmptyDataPacket) (simp add: positions)
qed

text \<open>
  C5, C8 and C9 speak of frames that parsePacket decodes: a frame applied before a second
  one (C5), a frame that passes the three validations with a token that is no number
  (C8), the mission time of a decoded frame (C9). By \<open>parsePacket_never_commits\<close> there is
  no such frame, so these three have no instance on parsePacket and are left open. What
  the block "Data handling" would do with the tokens of such frames is recorded above:
  \<open>data_handling_result\<close>, \<open>packet_information_Some\<close>, \<open>data_handling_accessors\<close> and
  \<open>data_handling_missionTime\<close>.
\<close>

end
